theory Spec2Isabelle
  imports Complex_Main "HOL-Library.Word"
begin

section \<open>The fetch loader of hls.js (src/utils/fetch-loader.ts)\<close>

text \<open>
  A shallow embedding of \<^verbatim>\<open>FetchLoader\<close>: one cancellable, timed GET request whose
  outcome is reported through callbacks. The class is event driven, so the model is a
  state record (the fields of the object, the pending timer, the pending promise chain,
  the progress pump and the list of callback invocations made so far) and one function
  per piece of code that runs atomically: \<^verbatim>\<open>load\<close>, \<^verbatim>\<open>abort\<close>, \<^verbatim>\<open>destroy\<close>,
  the timer callback, the two \<^verbatim>\<open>then\<close> handlers, the \<^verbatim>\<open>catch\<close> handler and the
  pump's chunk handler. What the runtime does (the transport resolving or rejecting, the
  timer expiring, the clock) arrives as events.
\<close>

subsection \<open>JavaScript values\<close>

text \<open>
  Byte offsets and lengths are JavaScript numbers holding integers; they are modelled as
  \<open>int\<close>, and an optional property (\<^verbatim>\<open>rangeStart?: number\<close>) as \<open>int option\<close>, \<open>None\<close>
  being \<^verbatim>\<open>undefined\<close>. A JavaScript number is an IEEE double: it holds every integer up
  to \<^verbatim>\<open>Number.MAX_SAFE_INTEGER\<close> in magnitude exactly, subtracts exactly there, and prints
  such an integer as its decimal numeral. Within that range \<open>int\<close> arithmetic and
  \<open>Number_toString\<close> are what the code computes; beyond it the code rounds (and from
  \<open>10^21\<close> prints an exponent), which the model does not follow, so every statement about
  the arithmetic or the printing of a number is made for safe integers only.
\<close>

definition MAX_SAFE_INTEGER :: int where
  "MAX_SAFE_INTEGER = 2 ^ 53 - 1"

definition digit_char :: "nat \<Rightarrow> char" where
  "digit_char d = (if d < 10 then ''0123456789'' ! d else CHR ''?'')"

fun digits10 :: "nat \<Rightarrow> string" where
  "digits10 n = (if n < 10 then [digit_char n] else digits10 (n div 10) @ [digit_char (n mod 10)])"

declare digits10.simps [simp del]

definition Number_toString :: "int \<Rightarrow> string" where
  "Number_toString i = (if i < 0 then CHR ''-'' # digits10 (nat (- i)) else digits10 (nat i))"

text \<open>String concatenation with an optional number: \<^verbatim>\<open>undefined\<close> prints as its name.\<close>

definition toString_opt :: "int option \<Rightarrow> string" where
  "toString_opt v = (case v of None \<Rightarrow> ''undefined'' | Some i \<Rightarrow> Number_toString i)"

subsection \<open>The request parameter builder\<close>

record LoaderContext =
  url :: string
  responseType :: string
  rangeStart :: "int option"
  rangeEnd :: "int option"

text \<open>
  An \<^verbatim>\<open>AbortSignal\<close> is an object of the runtime, known by its identity. The signal handed
  to the builder by \<^verbatim>\<open>load\<close> is the one of the loader's own controller, the field
  \<open>controller_signal\<close> of the loader below; whether it is aborted is the field
  \<open>controller_aborted\<close>. The field
  \<open>http_method\<close> is the property \<^verbatim>\<open>method\<close> of the parameters, and the \<^verbatim>\<open>url\<close>
  properties of the request, of the response and of the loader response are the fields
  \<open>request_url\<close>, \<open>response_url\<close> and \<open>loaded_url\<close>.
\<close>

datatype AbortSignal = AbortSignal nat

record RequestInit =
  http_method :: string
  mode :: string
  credentials :: string
  signal :: AbortSignal
  headers :: "(string \<times> string) list option"

text \<open>
  \<^verbatim>\<open>if (context.rangeEnd)\<close> tests truthiness: the branch is taken when \<open>rangeEnd\<close> is
  defined and is not \<open>0\<close>. The subtraction \<open>e - 1\<close> and the two printed numbers are those
  of the code for safe integers, as said above; the statements about the header value
  carry that bound.
\<close>

definition getRequestParameters :: "LoaderContext \<Rightarrow> AbortSignal \<Rightarrow> RequestInit" where
  "getRequestParameters context' signal' =
     (let initParams = \<lparr> http_method = ''GET'', mode = ''cors'', credentials = ''same-origin'',
                          signal = signal', headers = None \<rparr>
      in case rangeEnd context' of
           None \<Rightarrow> initParams
         | Some e \<Rightarrow>
             if e \<noteq> 0
             then initParams \<lparr> headers := Some [(''Range'',
                    ''bytes='' @ toString_opt (rangeStart context') @ ''-'' @
                    Number_toString (e - 1))] \<rparr>
             else initParams)"

record Request =
  request_url :: string
  request_init :: RequestInit

definition getRequest :: "LoaderContext \<Rightarrow> RequestInit \<Rightarrow> Request" where
  "getRequest context' initParams = \<lparr> request_url = url context', request_init = initParams \<rparr>"

subsection \<open>Responses, errors and statistics\<close>

text \<open>
  A response is an object of the runtime. \<open>headers_get\<close> is its \<^verbatim>\<open>headers.get\<close>:
  \<open>Inr (Some v)\<close> is a header value, \<open>Inr None\<close> is \<^verbatim>\<open>null\<close> (no such header) and
  \<open>Inl m\<close> is a thrown error with message \<open>m\<close> (the Fetch standard throws a TypeError for
  a name that is not a header name). \<open>has_body\<close> says that \<^verbatim>\<open>response.body\<close> is a stream
  and not \<^verbatim>\<open>null\<close> (a response such as 204 has a null body).
\<close>

record Response =
  ok :: bool
  status :: int
  statusText :: string
  response_url :: string
  headers_get :: "string \<Rightarrow> string + string option"
  has_body :: bool

text \<open>
  What a promise is rejected with, as the catch handler reads it: \<^verbatim>\<open>error.code\<close>,
  \<^verbatim>\<open>error.message\<close>, \<^verbatim>\<open>error.details\<close>; a missing property is \<open>None\<close>.
\<close>

record JsError =
  code :: "int option"
  message :: string
  details :: "Response option"

definition FetchError :: "string \<Rightarrow> int \<Rightarrow> Response \<Rightarrow> JsError" where
  "FetchError message' code' details' =
     \<lparr> code = Some code', message = message', details = Some details' \<rparr>"

definition TypeError :: "string \<Rightarrow> JsError" where
  "TypeError message' = \<lparr> code = None, message = message', details = None \<rparr>"

text \<open>
  The body of a response as its two accessors decode it: \<^verbatim>\<open>response.text()\<close> gives a
  string, whose \<^verbatim>\<open>length\<close> counts UTF-16 code units, and
  \<^verbatim>\<open>response.arrayBuffer()\<close> gives the bytes, counted by \<^verbatim>\<open>byteLength\<close>.
\<close>

record Body =
  body_text :: "16 word list"
  body_arrayBuffer :: "8 word list"

datatype payload = Text "16 word list" | ArrayBuffer "8 word list"

record LoaderResponse =
  loaded_url :: string
  data :: payload

text \<open>
  Modelled from the spec: the class \<^verbatim>\<open>LoadStats\<close> (\<^verbatim>\<open>src/loader/load-stats\<close>) and the
  interface \<^verbatim>\<open>LoaderStats\<close> are not among the sources. The spec gives the fields:
  \<open>aborted\<close>, false at first; three timestamps, each unset or a clock value; the bytes
  loaded; and the total, \<open>0\<close> until known. A timestamp is a \<open>real option\<close>: \<open>None\<close> is
  a timestamp that holds no clock value (never assigned, or the \<^verbatim>\<open>NaN\<close> that
  \<^verbatim>\<open>Math.max\<close> makes of an unassigned operand). The total is an \<open>int option\<close>, \<open>None\<close>
  being the \<^verbatim>\<open>NaN\<close> that \<^verbatim>\<open>parseInt\<close> gives when the header holds no number.
\<close>

record LoaderStats =
  aborted :: bool
  trequest :: "real option"
  tfirst :: "real option"
  tload :: "real option"
  loaded :: int
  total :: "int option"

definition LoadStats_new :: LoaderStats where
  "LoadStats_new = \<lparr> aborted = False, trequest = None, tfirst = None, tload = None,
                      loaded = 0, total = Some 0 \<rparr>"

definition Math_max :: "real \<Rightarrow> real option \<Rightarrow> real option" where
  "Math_max a b = (case b of None \<Rightarrow> None | Some y \<Rightarrow> Some (max a y))"

subsection \<open>parseInt\<close>

text \<open>
  The ECMAScript \<^verbatim>\<open>parseInt\<close> with no radix: leading white space is dropped, a sign is
  read, a \<^verbatim>\<open>0x\<close> prefix selects radix 16, and the longest prefix of digits is the
  value; with no digit the result is \<^verbatim>\<open>NaN\<close> (\<open>None\<close>). The value is kept exact,
  where JavaScript rounds an integer beyond \<open>2^53\<close> to the nearest double.
\<close>

definition StrWhiteSpaceChar :: "char \<Rightarrow> bool" where
  "StrWhiteSpaceChar c = (of_char c \<in> {9, 10, 11, 12, 13, 32, 160 :: nat})"

definition digit_value :: "char \<Rightarrow> nat option" where
  "digit_value c =
     (let n = (of_char c :: nat)
      in if 48 \<le> n \<and> n \<le> 57 then Some (n - 48)
         else if 97 \<le> n \<and> n \<le> 122 then Some (n - 87)
         else if 65 \<le> n \<and> n \<le> 90 then Some (n - 55)
         else None)"

fun radix_prefix :: "nat \<Rightarrow> string \<Rightarrow> nat list" where
  "radix_prefix R [] = []"
| "radix_prefix R (c # cs) =
     (case digit_value c of
        None \<Rightarrow> []
      | Some d \<Rightarrow> if d < R then d # radix_prefix R cs else [])"

definition radix_value :: "nat \<Rightarrow> nat list \<Rightarrow> nat" where
  "radix_value R ds = foldl (\<lambda>a d. a * R + d) 0 ds"

definition parseInt :: "string \<Rightarrow> int option" where
  "parseInt str =
     (let S = dropWhile StrWhiteSpaceChar str;
          negative = (case S of [] \<Rightarrow> False | c # _ \<Rightarrow> c = CHR ''-'');
          S1 = (case S of [] \<Rightarrow> []
                | c # cs \<Rightarrow> if c = CHR ''+'' \<or> c = CHR ''-'' then cs else S);
          hex = (case S1 of a # b # _ \<Rightarrow> a = CHR ''0'' \<and> (b = CHR ''x'' \<or> b = CHR ''X'')
                 | _ \<Rightarrow> False);
          Z = (if hex then radix_prefix 16 (drop 2 S1) else radix_prefix 10 S1);
          R = (if hex then 16 else 10)
      in if Z = [] then None
         else Some (if negative then - int (radix_value R Z) else int (radix_value R Z)))"

subsection \<open>The loader\<close>

text \<open>
  The callbacks are functions of the caller. The record says which of the optional ones
  are registered, and how the call of \<^verbatim>\<open>onSuccess\<close> ends: \<open>onSuccess_throws\<close> is the error
  it throws, \<open>None\<close> when it returns. That call is made inside the promise chain, ahead of
  the catch handler, so an error it throws is caught by the loader itself; it is made at
  most once per load, so one outcome describes it. An error thrown by \<^verbatim>\<open>onProgress\<close> is
  caught by the pump and ends it, which is the event \<open>PumpFails\<close> below. The calls of
  \<^verbatim>\<open>onError\<close>, \<^verbatim>\<open>onTimeout\<close> and \<^verbatim>\<open>onAbort\<close> are the last statement of their handler, and
  these callbacks are taken to return normally. No callback calls back into the loader.
  Calling a callback appends a \<open>notification\<close> with the arguments of the call to the
  \<open>trace\<close> of the loader; the statistics in it are those at the moment of the call.
  A thrown value or a rejection is taken to be an error object.
\<close>

record LoaderCallbacks =
  onProgress :: bool
  onAbort :: bool
  onSuccess_throws :: "JsError option"

record LoaderConfiguration =
  timeout :: nat

record HlsConfig =
  config_fetchSetup :: "(LoaderContext \<Rightarrow> RequestInit \<Rightarrow> Request) option"

datatype notification =
    OnSuccess LoaderResponse LoaderStats LoaderContext Response
  | OnError "int option" string LoaderContext "Response option"
  | OnTimeout LoaderStats LoaderContext "Response option"
  | OnAbort LoaderStats "LoaderContext option" "Response option"
  | OnProgress LoaderStats LoaderContext "8 word list" Response

text \<open>
  The arrow functions of \<^verbatim>\<open>load\<close> close over its arguments \<^verbatim>\<open>context\<close> and
  \<^verbatim>\<open>callbacks\<close> (and over \<^verbatim>\<open>stats\<close>, which is the loader's one statistics object).
  A pending timer and a pending promise hold such a closure.
\<close>

record closure =
  c_context :: LoaderContext
  c_callbacks :: LoaderCallbacks

text \<open>
  The promise chain \<^verbatim>\<open>fetch(request).then(h1).then(h2).catch(h3)\<close>: before \<^verbatim>\<open>load\<close>
  there is none; then the transport's response is awaited; after \<open>h1\<close> the decoded body
  is awaited; once \<open>h2\<close> or \<open>h3\<close> has run the chain is settled and no handler runs again.
\<close>

datatype promise = Idle | AwaitResponse closure | AwaitBody closure | Settled

text \<open>
  The fields of the class, followed by the state of the runtime that belongs to the
  loader. \<open>requestTimeout\<close> is the timer behind the handle of that name: \<open>Some\<close> while
  it is scheduled, \<open>None\<close> when it was never set, was cleared, or has fired.
  \<open>controller_signal\<close> is \<^verbatim>\<open>controller.signal\<close> and \<open>controller_aborted\<close> is its
  \<^verbatim>\<open>aborted\<close> flag; the constructor is given the signal of the controller it creates.
  \<open>pump\<close> is the progress
  reader while it is reading. The model covers one \<^verbatim>\<open>load\<close> per loader, which is the
  contract of the class.
\<close>

record FetchLoader =
  fetchSetup :: "LoaderContext \<Rightarrow> RequestInit \<Rightarrow> Request"
  requestTimeout :: "closure option"
  request :: "Request option"
  response :: "Response option"
  controller_signal :: AbortSignal
  controller_aborted :: bool
  "context" :: "LoaderContext option"
  config :: "LoaderConfiguration option"
  callbacks :: "LoaderCallbacks option"
  stats :: LoaderStats
  chain :: promise
  pump :: "(closure \<times> Response) option"
  trace :: "notification list"

definition FetchLoader_new :: "HlsConfig \<Rightarrow> AbortSignal \<Rightarrow> FetchLoader" where
  "FetchLoader_new cfg signal' =
     \<lparr> fetchSetup = (case config_fetchSetup cfg of None \<Rightarrow> getRequest | Some f \<Rightarrow> f),
       requestTimeout = None, request = None, response = None,
       controller_signal = signal', controller_aborted = False, context = None, config = None, callbacks = None,
       stats = LoadStats_new, chain = Idle, pump = None, trace = [] \<rparr>"

definition notify :: "notification \<Rightarrow> FetchLoader \<Rightarrow> FetchLoader" where
  "notify n s = s \<lparr> trace := trace s @ [n] \<rparr>"

definition abortInternal :: "FetchLoader \<Rightarrow> FetchLoader" where
  "abortInternal s = s \<lparr> stats := (stats s) \<lparr> aborted := True \<rparr>, controller_aborted := True \<rparr>"

definition destroy :: "FetchLoader \<Rightarrow> FetchLoader" where
  "destroy s = abortInternal s"

text \<open>
  \<^verbatim>\<open>abort()\<close> reads \<^verbatim>\<open>this.callbacks.onAbort\<close>: while \<^verbatim>\<open>callbacks\<close> is unassigned
  (no \<^verbatim>\<open>load\<close> yet) that read throws, after \<^verbatim>\<open>abortInternal\<close> has run. The result is
  the error thrown, if any, and the state left behind.
\<close>

definition abort :: "FetchLoader \<Rightarrow> JsError option \<times> FetchLoader" where
  "abort s =
     (let s1 = abortInternal s
      in case callbacks s1 of
           None \<Rightarrow> (Some (TypeError ''Cannot read properties of undefined''), s1)
         | Some cbs \<Rightarrow>
             if onAbort cbs
             then (None, notify (OnAbort (stats s1) (context s1) (response s1)) s1)
             else (None, s1))"

text \<open>
  \<^verbatim>\<open>load\<close>, with the value \<open>now\<close> of the clock: it schedules the timer and starts the
  promise chain, both closed over \<open>context\<close> and \<open>callbacks\<close>.
\<close>

definition load ::
  "LoaderContext \<Rightarrow> LoaderConfiguration \<Rightarrow> LoaderCallbacks \<Rightarrow> real \<Rightarrow> FetchLoader \<Rightarrow> FetchLoader"
where
  "load context' config' callbacks' now s =
     (let initParams = getRequestParameters context' (controller_signal s);
          clo = \<lparr> c_context = context', c_callbacks = callbacks' \<rparr>
      in s \<lparr> stats := (stats s) \<lparr> trequest := Some now \<rparr>,
             context := Some context',
             config := Some config',
             callbacks := Some callbacks',
             request := Some (fetchSetup s context' initParams),
             requestTimeout := Some clo,
             chain := AwaitResponse clo \<rparr>)"

text \<open>The callback given to \<^verbatim>\<open>setTimeout\<close>; it runs only while the timer is scheduled.\<close>

definition onTimer :: "FetchLoader \<Rightarrow> FetchLoader" where
  "onTimer s =
     (case requestTimeout s of
        None \<Rightarrow> s
      | Some clo \<Rightarrow>
          (let s1 = abortInternal (s \<lparr> requestTimeout := None \<rparr>)
           in notify (OnTimeout (stats s1) (c_context clo) (response s1)) s1))"

text \<open>
  The first \<^verbatim>\<open>then\<close> handler, run when the transport resolves with a response. It
  returns the error it throws, if any, and the state; the promise of the body it returns
  otherwise is the state \<open>AwaitBody\<close> of the chain, set by \<open>step\<close>. With \<^verbatim>\<open>onProgress\<close>
  registered it reads \<^verbatim>\<open>response.clone().body.getReader()\<close>, which throws on a null body,
  and starts the pump.
\<close>

definition onResponse ::
  "closure \<Rightarrow> Response \<Rightarrow> real \<Rightarrow> FetchLoader \<Rightarrow> JsError option \<times> FetchLoader"
where
  "onResponse clo response' now s =
     (let s1 = s \<lparr> response := Some response' \<rparr>
      in if \<not> ok response'
         then (Some (FetchError (if statusText response' = [] then ''fetch, bad network response''
                                 else statusText response')
                                (status response') response'), s1)
         else
           (let s2 = s1 \<lparr> stats := (stats s1) \<lparr> tfirst := Math_max now (trequest (stats s1)) \<rparr> \<rparr>
            in case headers_get response' ''Content-Length'' of
                 Inl m \<Rightarrow> (Some (TypeError m), s2)
               | Inr v \<Rightarrow>
                   (let s3 = s2 \<lparr> stats := (stats s2) \<lparr> total :=
                               parseInt (case v of None \<Rightarrow> ''0''
                                         | Some x \<Rightarrow> if x = [] then ''0'' else x) \<rparr> \<rparr>
                    in if onProgress (c_callbacks clo)
                       then (if has_body response'
                             then (None, s3 \<lparr> pump := Some (clo, response') \<rparr>)
                             else (Some (TypeError ''Cannot read properties of null''), s3))
                       else (None, s3))))"

text \<open>
  The second \<^verbatim>\<open>then\<close> handler, run when the body is decoded. \<^verbatim>\<open>LENGTH\<close> and the
  accessor called on the response were both chosen by \<^verbatim>\<open>isArrayBuffer\<close>. Its last
  statement calls \<^verbatim>\<open>onSuccess\<close>; what that call throws, the handler throws, and the
  catch handler chained behind it receives.
\<close>

definition onData ::
  "closure \<Rightarrow> Body \<Rightarrow> real \<Rightarrow> FetchLoader \<Rightarrow> JsError option \<times> FetchLoader"
where
  "onData clo body now s =
     (let isArrayBuffer = (responseType (c_context clo) = ''arraybuffer'');
          responseData = (if isArrayBuffer then ArrayBuffer (body_arrayBuffer body)
                          else Text (body_text body));
          n = (if isArrayBuffer then int (length (body_arrayBuffer body))
               else int (length (body_text body)));
          s1 = s \<lparr> requestTimeout := None \<rparr>;
          s2 = s1 \<lparr> stats := (stats s1) \<lparr> tload := Math_max now (tfirst (stats s1)) \<rparr> \<rparr>;
          s3 = s2 \<lparr> stats := (stats s2) \<lparr> loaded := n, total := Some n \<rparr> \<rparr>
      in case response s3 of
           None \<Rightarrow> (Some (TypeError ''Cannot read properties of undefined''), s3)
         | Some response' \<Rightarrow>
             (onSuccess_throws (c_callbacks clo),
              notify (OnSuccess \<lparr> loaded_url = response_url response', data = responseData \<rparr>
                                (stats s3) (c_context clo) response') s3))"

text \<open>The \<^verbatim>\<open>catch\<close> handler, run with whatever the chain was rejected with.\<close>

definition onCatch :: "closure \<Rightarrow> JsError \<Rightarrow> FetchLoader \<Rightarrow> FetchLoader" where
  "onCatch clo error' s =
     (let s1 = s \<lparr> requestTimeout := None \<rparr>
      in if aborted (stats s1) then s1
         else notify (OnError (code error') (message error') (c_context clo) (details error')) s1)"

text \<open>The pump's handler for one chunk read from the cloned body.\<close>

definition onChunk :: "closure \<Rightarrow> Response \<Rightarrow> 8 word list \<Rightarrow> FetchLoader \<Rightarrow> FetchLoader" where
  "onChunk clo response' value' s =
     (let s1 = s \<lparr> stats := (stats s) \<lparr> loaded := loaded (stats s) + int (length value') \<rparr> \<rparr>
      in notify (OnProgress (stats s1) (c_context clo) value' response') s1)"

subsection \<open>Events\<close>

text \<open>
  What can happen to a loader after \<^verbatim>\<open>load\<close>: the caller aborts or destroys it, the timer
  expires, the transport resolves with a response (at clock value \<open>now\<close>), the body
  arrives decoded (at clock value \<open>now\<close>), the transport or the decoding rejects, and the
  pump reads a chunk, reaches the end or fails. A promise settles once: a transport
  event that finds the chain in another state than the one it resolves is not an event of
  this load and leaves the state alone. An error thrown by a handler rejects the chain,
  which runs the catch handler before any other event.
\<close>

datatype event =
    Abort
  | Destroy
  | TimerFires
  | RespArrives Response real
  | BodyArrives Body real
  | Rejects JsError
  | Chunk "8 word list"
  | PumpDone
  | PumpFails

definition settle :: "closure \<Rightarrow> JsError option \<times> FetchLoader \<Rightarrow> promise \<Rightarrow> FetchLoader" where
  "settle clo r next =
     (case fst r of
        None \<Rightarrow> (snd r) \<lparr> chain := next \<rparr>
      | Some e \<Rightarrow> (onCatch clo e (snd r)) \<lparr> chain := Settled \<rparr>)"

fun step :: "event \<Rightarrow> FetchLoader \<Rightarrow> FetchLoader" where
  "step Abort s = snd (abort s)"
| "step Destroy s = destroy s"
| "step TimerFires s = onTimer s"
| "step (RespArrives r now) s =
     (case chain s of
        AwaitResponse clo \<Rightarrow> settle clo (onResponse clo r now s) (AwaitBody clo)
      | _ \<Rightarrow> s)"
| "step (BodyArrives b now) s =
     (case chain s of
        AwaitBody clo \<Rightarrow> settle clo (onData clo b now s) Settled
      | _ \<Rightarrow> s)"
| "step (Rejects e) s =
     (case chain s of
        AwaitResponse clo \<Rightarrow> (onCatch clo e s) \<lparr> chain := Settled \<rparr>
      | AwaitBody clo \<Rightarrow> (onCatch clo e s) \<lparr> chain := Settled \<rparr>
      | _ \<Rightarrow> s)"
| "step (Chunk v) s =
     (case pump s of
        None \<Rightarrow> s
      | Some (clo, r) \<Rightarrow> onChunk clo r v s)"
| "step PumpDone s = s \<lparr> pump := None \<rparr>"
| "step PumpFails s = s \<lparr> pump := None \<rparr>"

fun run :: "event list \<Rightarrow> FetchLoader \<Rightarrow> FetchLoader" where
  "run [] s = s"
| "run (e # es) s = run es (step e s)"

text \<open>Which notifications are terminal, and of what kind.\<close>

fun is_success :: "notification \<Rightarrow> bool" where
  "is_success (OnSuccess _ _ _ _) = True"
| "is_success _ = False"

fun is_error :: "notification \<Rightarrow> bool" where
  "is_error (OnError _ _ _ _) = True"
| "is_error _ = False"

fun is_timeout :: "notification \<Rightarrow> bool" where
  "is_timeout (OnTimeout _ _ _) = True"
| "is_timeout _ = False"

fun is_abort :: "notification \<Rightarrow> bool" where
  "is_abort (OnAbort _ _ _) = True"
| "is_abort _ = False"

definition is_terminal :: "notification \<Rightarrow> bool" where
  "is_terminal n = (is_success n \<or> is_error n \<or> is_timeout n)"

text \<open>\<^verbatim>\<open>getResponseHeader\<close>: \<open>Inl\<close> would be an error thrown to the caller.\<close>

definition getResponseHeader :: "FetchLoader \<Rightarrow> string \<Rightarrow> JsError + string option" where
  "getResponseHeader s name =
     (case response s of
        None \<Rightarrow> Inr None
      | Some response' \<Rightarrow>
          (case headers_get response' name of
             Inr v \<Rightarrow> Inr v
           | Inl m \<Rightarrow> Inr None))"

definition payload_length :: "payload \<Rightarrow> int" where
  "payload_length p = (case p of Text t \<Rightarrow> int (length t) | ArrayBuffer b \<Rightarrow> int (length b))"

text \<open>
  A transport honours the cancellation signal when it delivers neither a response nor a
  body once the signal was raised, that is after the first \<open>Abort\<close>, \<open>Destroy\<close> or
  \<open>TimerFires\<close> of a run: from then on it can only reject.
\<close>

fun cancels :: "event \<Rightarrow> bool" where
  "cancels Abort = True"
| "cancels Destroy = True"
| "cancels TimerFires = True"
| "cancels _ = False"

fun delivers :: "event \<Rightarrow> bool" where
  "delivers (RespArrives _ _) = True"
| "delivers (BodyArrives _ _) = True"
| "delivers _ = False"

fun honours :: "event list \<Rightarrow> bool" where
  "honours [] = True"
| "honours (e # es) = (if cancels e then list_all (\<lambda>x. \<not> delivers x) es else honours es)"

subsection \<open>Invariants of a load\<close>

text \<open>A success notification reports all bytes: loaded and total are the payload's length.\<close>

fun reports_all_bytes :: "notification \<Rightarrow> bool" where
  "reports_all_bytes (OnSuccess lr st c r) =
     (loaded st = payload_length (data lr) \<and> total st = Some (loaded st))"
| "reports_all_bytes _ = True"

text \<open>
  The timestamps are monotone: a first-byte time is not before the request time, and a
  completion time is not before the first-byte time, whenever they hold a value. While
  the response is awaited no completion time has been assigned.
\<close>

definition monotone_timestamps :: "LoaderStats \<Rightarrow> bool" where
  "monotone_timestamps st =
     ((case tfirst st of None \<Rightarrow> True
       | Some f \<Rightarrow> (case trequest st of None \<Rightarrow> False | Some q \<Rightarrow> q \<le> f))
      \<and> (case tload st of None \<Rightarrow> True
         | Some l \<Rightarrow> (case tfirst st of None \<Rightarrow> False | Some f \<Rightarrow> f \<le> l)))"

definition timestamps_inv :: "FetchLoader \<Rightarrow> bool" where
  "timestamps_inv s =
     (monotone_timestamps (stats s)
      \<and> (case chain s of AwaitResponse _ \<Rightarrow> tload (stats s) = None | _ \<Rightarrow> True))"

text \<open>
  Before any cancellation the load is not aborted and the \<^verbatim>\<open>onSuccess\<close> its chain will
  call returns normally; while the chain is pending nothing terminal has been notified
  and the timer is scheduled, and once it has settled exactly one terminal notification
  was made and the timer is gone. After a cancellation at most one terminal notification
  was made, none while the timer is still scheduled, and a pending chain belongs to an
  aborted load.
\<close>

definition returns_normally :: "promise \<Rightarrow> bool" where
  "returns_normally p =
     (case p of
        AwaitResponse clo \<Rightarrow> onSuccess_throws (c_callbacks clo) = None
      | AwaitBody clo \<Rightarrow> onSuccess_throws (c_callbacks clo) = None
      | _ \<Rightarrow> True)"

definition before_cancel :: "FetchLoader \<Rightarrow> bool" where
  "before_cancel s =
     (\<not> aborted (stats s) \<and> returns_normally (chain s)
      \<and> (chain s \<noteq> Settled \<longrightarrow> filter is_terminal (trace s) = [] \<and> requestTimeout s \<noteq> None)
      \<and> (chain s = Settled \<longrightarrow> length (filter is_terminal (trace s)) = 1 \<and> requestTimeout s = None))"

definition after_cancel :: "FetchLoader \<Rightarrow> bool" where
  "after_cancel s =
     (length (filter is_terminal (trace s)) \<le> 1
      \<and> (requestTimeout s \<noteq> None \<longrightarrow> filter is_terminal (trace s) = [])
      \<and> (chain s \<noteq> Settled \<longrightarrow> aborted (stats s)))"

text \<open>
  Once the timer has fired, or the chain has settled uncancelled, exactly one terminal
  notification was made, the timer is gone, and a pending chain belongs to an aborted
  load.
\<close>

definition one_terminal :: "FetchLoader \<Rightarrow> bool" where
  "one_terminal s =
     (length (filter is_terminal (trace s)) = 1
      \<and> requestTimeout s = None
      \<and> (chain s \<noteq> Settled \<longrightarrow> aborted (stats s)))"

text \<open>
  A load whose timer is gone, or which is aborted, has been notified of it: its trace
  holds a terminal or an abort notification.
\<close>

definition notified :: "FetchLoader \<Rightarrow> bool" where
  "notified s =
     (requestTimeout s = None \<or> aborted (stats s) \<longrightarrow>
        list_ex (\<lambda>n. is_terminal n \<or> is_abort n) (trace s))"

fun is_chunk :: "event \<Rightarrow> bool" where
  "is_chunk (Chunk _) = True"
| "is_chunk _ = False"

fun by_caller :: "event \<Rightarrow> bool" where
  "by_caller Abort = True"
| "by_caller Destroy = True"
| "by_caller _ = False"

subsection \<open>Concrete loads\<close>

definition default_config :: HlsConfig where
  "default_config = \<lparr> config_fetchSetup = None \<rparr>"

definition segment_context :: LoaderContext where
  "segment_context = \<lparr> url = ''https://x/seg.ts'', responseType = ''arraybuffer'',
                        rangeStart = Some 100, rangeEnd = Some 200 \<rparr>"

definition zero_end_context :: LoaderContext where
  "zero_end_context = \<lparr> url = ''https://x/seg.ts'', responseType = ''text'',
                         rangeStart = Some 5, rangeEnd = Some 0 \<rparr>"

definition plain_callbacks :: LoaderCallbacks where
  "plain_callbacks = \<lparr> onProgress = False, onAbort = False, onSuccess_throws = None \<rparr>"

definition full_callbacks :: LoaderCallbacks where
  "full_callbacks = \<lparr> onProgress = True, onAbort = True, onSuccess_throws = None \<rparr>"

definition throwing_callbacks :: LoaderCallbacks where
  "throwing_callbacks =
     \<lparr> onProgress = False, onAbort = False,
       onSuccess_throws = Some (TypeError ''x is not a function'') \<rparr>"

definition the_signal :: AbortSignal where
  "the_signal = AbortSignal 1"

definition five_seconds :: LoaderConfiguration where
  "five_seconds = \<lparr> timeout = 5000 \<rparr>"

definition partial_content :: Response where
  "partial_content =
     \<lparr> ok = True, status = 206, statusText = ''Partial Content'',
       response_url = ''https://x/seg.ts'',
       headers_get = (\<lambda>name. if name = ''Content-Length'' then Inr (Some ''100'')
                              else Inr None),
       has_body = True \<rparr>"

definition not_found :: Response where
  "not_found =
     \<lparr> ok = False, status = 404, statusText = [],
       response_url = ''https://x/seg.ts'',
       headers_get = (\<lambda>name. Inr None),
       has_body = True \<rparr>"

definition three_bytes :: Body where
  "three_bytes = \<lparr> body_text = [], body_arrayBuffer = [1, 2, 3] \<rparr>"

definition abort_error :: JsError where
  "abort_error = \<lparr> code = Some 20, message = ''The user aborted a request.'', details = None \<rparr>"

text \<open>
  A fresh loader that has just been asked for the segment, at clock value \<open>1000\<close>: once
  with no optional callback, once with both.
\<close>

definition plain_load :: FetchLoader where
  "plain_load =
     load segment_context five_seconds plain_callbacks 1000 (FetchLoader_new default_config the_signal)"

definition full_load :: FetchLoader where
  "full_load =
     load segment_context five_seconds full_callbacks 1000 (FetchLoader_new default_config the_signal)"

definition throwing_load :: FetchLoader where
  "throwing_load =
     load segment_context five_seconds throwing_callbacks 1000
       (FetchLoader_new default_config the_signal)"

section \<open>Properties\<close>

subsection \<open>The request parameter builder\<close>

lemma Number_toString_100: "Number_toString 100 = ''100''"
  by (simp add: Number_toString_def digits10.simps digit_char_def)

lemma Number_toString_199: "Number_toString 199 = ''199''"
  by (simp add: Number_toString_def digits10.simps digit_char_def)

text \<open>
  C3. For a context whose \<open>rangeEnd\<close> is present and whose byte offsets are valid, that
  is safe integers with \<open>0 \<le> rangeStart < rangeEnd\<close>, the builder gives the one header
  \<open>Range\<close> with the value \<^verbatim>\<open>bytes=\<close>, the decimal \<open>rangeStart\<close>, \<^verbatim>\<open>-\<close> and the decimal
  \<open>rangeEnd - 1\<close>. With \<open>rangeEnd\<close> absent it gives no headers. In every case the method
  is \<^verbatim>\<open>GET\<close> and the signal of the parameters is the signal handed in, whichever signal
  that is; \<^verbatim>\<open>load\<close> hands in the signal of the loader's own controller, and the default
  request factory keeps the parameters as they are. The builder is a function of the
  context and the signal, so equal inputs give equal parameters.
\<close>

theorem C3_range_header:
  "(rangeStart ctx = Some a \<and> rangeEnd ctx = Some b \<and> 0 \<le> a \<and> a < b \<and> b \<le> MAX_SAFE_INTEGER \<longrightarrow>
      headers (getRequestParameters ctx sig) =
        Some [(''Range'', ''bytes='' @ Number_toString a @ ''-'' @ Number_toString (b - 1))])
   \<and> (rangeEnd ctx = None \<longrightarrow> headers (getRequestParameters ctx sig) = None)
   \<and> http_method (getRequestParameters ctx sig) = ''GET''
   \<and> signal (getRequestParameters ctx sig) = sig
   \<and> request (load ctx cfg cbs now (FetchLoader_new \<lparr> config_fetchSetup = None \<rparr> sig)) =
       Some \<lparr> request_url = url ctx, request_init = getRequestParameters ctx sig \<rparr>"
  by (auto simp: getRequestParameters_def toString_opt_def load_def FetchLoader_new_def
                 getRequest_def Let_def split: option.splits)

theorem C3_range_header_witness:
  "rangeStart segment_context = Some 100 \<and> rangeEnd segment_context = Some 200
   \<and> (0::int) \<le> 100 \<and> (100::int) < 200 \<and> 200 \<le> MAX_SAFE_INTEGER
   \<and> headers (getRequestParameters segment_context the_signal) =
        Some [(''Range'', ''bytes=100-199'')]
   \<and> http_method (getRequestParameters segment_context the_signal) = ''GET''
   \<and> signal (getRequestParameters segment_context the_signal) = the_signal"
  using C3_range_header [of segment_context 100 200 the_signal]
  by (simp add: segment_context_def Number_toString_100 Number_toString_199 MAX_SAFE_INTEGER_def)

text \<open>
  C10. A context whose \<open>rangeEnd\<close> is \<open>0\<close> gets no Range header, whatever its
  \<open>rangeStart\<close>: the test is the truthiness of \<open>rangeEnd\<close>. With the default request
  factory the request that \<^verbatim>\<open>load\<close> builds is a plain \<^verbatim>\<open>GET\<close> of the URL with no headers.
\<close>

theorem C10_rangeEnd_zero:
  "rangeEnd ctx = Some 0 \<Longrightarrow>
     headers (getRequestParameters ctx sig) = None
   \<and> http_method (getRequestParameters ctx sig) = ''GET''
   \<and> request (load ctx cfg cbs now (FetchLoader_new \<lparr> config_fetchSetup = None \<rparr> sg)) =
       Some \<lparr> request_url = url ctx,
              request_init = \<lparr> http_method = ''GET'', mode = ''cors'', credentials = ''same-origin'',
                               signal = sg, headers = None \<rparr> \<rparr>"
  by (simp add: getRequestParameters_def load_def FetchLoader_new_def getRequest_def Let_def)

theorem C10_rangeEnd_zero_witness:
  "rangeEnd zero_end_context = Some 0
   \<and> headers (getRequestParameters zero_end_context the_signal) = None
   \<and> http_method (getRequestParameters zero_end_context the_signal) = ''GET''"
  using C10_rangeEnd_zero [of zero_end_context the_signal five_seconds plain_callbacks 0 the_signal]
  by (simp add: zero_end_context_def)

subsection \<open>What one event can and cannot change\<close>

lemmas handler_defs = abort_def destroy_def abortInternal_def onTimer_def onResponse_def
  onData_def onCatch_def onChunk_def settle_def notify_def Let_def

lemma aborted_step: "aborted (stats s) \<Longrightarrow> aborted (stats (step e s))"
  by (cases e) (auto simp: handler_defs split: promise.splits option.splits sum.splits)

lemma errors_step:
  "aborted (stats s) \<Longrightarrow> filter is_error (trace (step e s)) = filter is_error (trace s)"
  by (cases e) (auto simp: handler_defs split: promise.splits option.splits sum.splits)

lemma timer_step: "requestTimeout s = None \<Longrightarrow> requestTimeout (step e s) = None"
  by (cases e) (auto simp: handler_defs split: promise.splits option.splits sum.splits)

lemma timeouts_step:
  "requestTimeout s = None \<Longrightarrow> filter is_timeout (trace (step e s)) = filter is_timeout (trace s)"
  by (cases e) (auto simp: handler_defs split: promise.splits option.splits sum.splits)

lemma settled_step: "chain s = Settled \<Longrightarrow> chain (step e s) = Settled"
  by (cases e) (auto simp: handler_defs split: promise.splits option.splits sum.splits)

lemma successes_step:
  "chain s = Settled \<Longrightarrow> filter is_success (trace (step e s)) = filter is_success (trace s)"
  by (cases e) (auto simp: handler_defs split: promise.splits option.splits sum.splits)

subsection \<open>Runs\<close>

lemma aborted_run: "aborted (stats s) \<Longrightarrow> aborted (stats (run evs s))"
  by (induction evs arbitrary: s) (simp_all add: aborted_step)

lemma errors_run:
  "aborted (stats s) \<Longrightarrow> filter is_error (trace (run evs s)) = filter is_error (trace s)"
  by (induction evs arbitrary: s) (simp_all add: aborted_step errors_step)

lemma timer_run: "requestTimeout s = None \<Longrightarrow> requestTimeout (run evs s) = None"
  by (induction evs arbitrary: s) (simp_all add: timer_step)

lemma timeouts_run:
  "requestTimeout s = None \<Longrightarrow> filter is_timeout (trace (run evs s)) = filter is_timeout (trace s)"
  by (induction evs arbitrary: s) (simp_all add: timer_step timeouts_step)

lemma successes_run:
  "chain s = Settled \<Longrightarrow> filter is_success (trace (run evs s)) = filter is_success (trace s)"
  by (induction evs arbitrary: s) (simp_all add: settled_step successes_step)

lemmas load_defs = plain_load_def full_load_def load_def FetchLoader_new_def LoadStats_new_def
  default_config_def throwing_load_def Let_def

lemma parseInt_100: "parseInt ''100'' = Some 100"
  by (simp add: parseInt_def StrWhiteSpaceChar_def digit_value_def radix_value_def Let_def)

lemma reports_step:
  "list_all reports_all_bytes (trace s) \<Longrightarrow> list_all reports_all_bytes (trace (step e s))"
  by (cases e)
     (auto simp: handler_defs payload_length_def split: promise.splits option.splits sum.splits)

lemma reports_run:
  "list_all reports_all_bytes (trace s) \<Longrightarrow> list_all reports_all_bytes (trace (run evs s))"
  by (induction evs arbitrary: s) (simp_all add: reports_step)

lemma timestamps_step: "timestamps_inv s \<Longrightarrow> timestamps_inv (step e s)"
  by (cases e)
     (auto simp: handler_defs timestamps_inv_def monotone_timestamps_def Math_max_def
           split: promise.splits option.splits sum.splits)

lemma timestamps_run: "timestamps_inv s \<Longrightarrow> timestamps_inv (run evs s)"
  by (induction evs arbitrary: s) (simp_all add: timestamps_step)

lemma timestamps_load: "timestamps_inv (load ctx cfg cbs now (FetchLoader_new hc sg))"
  by (simp add: timestamps_inv_def monotone_timestamps_def load_def FetchLoader_new_def
        LoadStats_new_def Let_def)

lemma settled_timer_step:
  "(chain s = Settled \<longrightarrow> requestTimeout s = None) \<Longrightarrow>
   (chain (step e s) = Settled \<longrightarrow> requestTimeout (step e s) = None)"
  by (cases e) (auto simp: handler_defs split: promise.splits option.splits sum.splits)

lemma settled_timer_run:
  "(chain s = Settled \<longrightarrow> requestTimeout s = None) \<Longrightarrow>
   (chain (run evs s) = Settled \<longrightarrow> requestTimeout (run evs s) = None)"
  by (induction evs arbitrary: s) (simp_all add: settled_timer_step)

lemma callbacks_step: "callbacks (step e s) = callbacks s"
  by (cases e) (auto simp: handler_defs split: promise.splits option.splits sum.splits)

lemma before_cancel_step:
  "before_cancel s \<Longrightarrow> \<not> cancels e \<Longrightarrow> before_cancel (step e s)"
  by (cases e)
     (auto simp: handler_defs before_cancel_def returns_normally_def is_terminal_def
           split: promise.splits option.splits sum.splits)

lemma cancel_step:
  "before_cancel s \<Longrightarrow> cancels e \<Longrightarrow> after_cancel (step e s)"
  by (cases e)
     (auto simp: handler_defs before_cancel_def after_cancel_def is_terminal_def
           split: promise.splits option.splits sum.splits)

lemma after_cancel_step:
  "after_cancel s \<Longrightarrow> \<not> delivers e \<Longrightarrow> after_cancel (step e s)"
  by (cases e)
     (auto simp: handler_defs after_cancel_def is_terminal_def
           split: promise.splits option.splits sum.splits)

lemma after_cancel_run:
  "after_cancel s \<Longrightarrow> list_all (\<lambda>x. \<not> delivers x) evs \<Longrightarrow> after_cancel (run evs s)"
  by (induction evs arbitrary: s) (simp_all add: after_cancel_step)

lemma honours_run:
  "before_cancel s \<Longrightarrow> honours evs \<Longrightarrow> length (filter is_terminal (trace (run evs s))) \<le> 1"
proof (induction evs arbitrary: s)
  case Nil
  then show ?case by (cases "chain s = Settled") (auto simp: before_cancel_def)
next
  case (Cons e es)
  show ?case
  proof (cases "cancels e")
    case True
    with Cons.prems have "after_cancel (step e s)" and "list_all (\<lambda>x. \<not> delivers x) es"
      by (simp_all add: cancel_step)
    then have "after_cancel (run es (step e s))" by (rule after_cancel_run)
    then show ?thesis by (simp add: after_cancel_def)
  next
    case False
    with Cons.prems have "before_cancel (step e s)" and "honours es"
      by (simp_all add: before_cancel_step)
    then show ?thesis using Cons.IH by simp
  qed
qed

lemma timer_one_terminal: "before_cancel s \<Longrightarrow> one_terminal (step TimerFires s)"
  by (cases "chain s = Settled")
     (auto simp: handler_defs before_cancel_def one_terminal_def is_terminal_def
           split: option.splits)

lemma one_terminal_step:
  "one_terminal s \<Longrightarrow> \<not> delivers e \<Longrightarrow> one_terminal (step e s)"
  by (cases e)
     (auto simp: handler_defs one_terminal_def is_terminal_def
           split: promise.splits option.splits sum.splits)

lemma one_terminal_run:
  "one_terminal s \<Longrightarrow> list_all (\<lambda>x. \<not> delivers x) evs \<Longrightarrow> one_terminal (run evs s)"
  by (induction evs arbitrary: s) (simp_all add: one_terminal_step)

lemma exactly_one_run:
  "before_cancel s \<Longrightarrow> honours evs \<Longrightarrow> list_all (\<lambda>x. \<not> by_caller x) evs \<Longrightarrow>
   requestTimeout (run evs s) = None \<Longrightarrow>
   length (filter is_terminal (trace (run evs s))) = 1"
proof (induction evs arbitrary: s)
  case Nil
  then show ?case by (cases "chain s = Settled") (auto simp: before_cancel_def)
next
  case (Cons e es)
  show ?case
  proof (cases "cancels e")
    case True
    with Cons.prems(3) have e: "e = TimerFires" by (cases e) simp_all
    from Cons.prems(1) have "one_terminal (step TimerFires s)" by (rule timer_one_terminal)
    moreover from Cons.prems(2) True have "list_all (\<lambda>x. \<not> delivers x) es" by simp
    ultimately have "one_terminal (run es (step TimerFires s))" by (rule one_terminal_run)
    then show ?thesis using e by (simp add: one_terminal_def)
  next
    case False
    with Cons.prems have "before_cancel (step e s)" and "honours es"
      and "list_all (\<lambda>x. \<not> by_caller x) es" and "requestTimeout (run es (step e s)) = None"
      by (simp_all add: before_cancel_step)
    then show ?thesis using Cons.IH by simp
  qed
qed

lemma before_cancel_load:
  "onSuccess_throws cbs = None \<Longrightarrow> before_cancel (load ctx cfg cbs now (FetchLoader_new hc sg))"
  by (simp add: before_cancel_def returns_normally_def load_def FetchLoader_new_def
        LoadStats_new_def Let_def)

lemma notified_step:
  "notified s \<Longrightarrow> callbacks s = Some cbs \<Longrightarrow> e \<noteq> Destroy \<Longrightarrow> (e = Abort \<longrightarrow> onAbort cbs) \<Longrightarrow>
   notified (step e s)"
  by (cases e)
     (auto simp: handler_defs notified_def is_terminal_def
           split: promise.splits option.splits sum.splits)

lemma notified_run:
  "notified s \<Longrightarrow> callbacks s = Some cbs \<Longrightarrow> Destroy \<notin> set evs \<Longrightarrow>
   (Abort \<in> set evs \<longrightarrow> onAbort cbs) \<Longrightarrow> notified (run evs s)"
proof (induction evs arbitrary: s)
  case Nil
  then show ?case by simp
next
  case (Cons e es)
  from Cons.prems have "notified (step e s)"
    by (intro notified_step [where cbs = cbs]) auto
  moreover from Cons.prems have "callbacks (step e s) = Some cbs"
    by (simp add: callbacks_step)
  ultimately show ?case using Cons.IH Cons.prems by simp
qed

lemma notified_load: "notified (load ctx cfg cbs now (FetchLoader_new hc sg))"
  by (simp add: notified_def load_def FetchLoader_new_def LoadStats_new_def Let_def)

lemma bytes_no_pump_step:
  "chain s = Settled \<Longrightarrow> pump s = None \<Longrightarrow>
   chain (step e s) = Settled \<and> pump (step e s) = None
   \<and> loaded (stats (step e s)) = loaded (stats s) \<and> total (stats (step e s)) = total (stats s)"
  by (cases e) (auto simp: handler_defs split: option.splits)

lemma bytes_no_pump_run:
  "chain s = Settled \<Longrightarrow> pump s = None \<Longrightarrow>
   loaded (stats (run evs s)) = loaded (stats s) \<and> total (stats (run evs s)) = total (stats s)"
proof (induction evs arbitrary: s)
  case Nil
  show ?case by simp
next
  case (Cons e es)
  from bytes_no_pump_step [OF Cons.prems, of e] Cons.IH [of "step e s"] show ?case by simp
qed

lemma bytes_no_chunk_step:
  "chain s = Settled \<Longrightarrow> \<not> is_chunk e \<Longrightarrow>
   chain (step e s) = Settled
   \<and> loaded (stats (step e s)) = loaded (stats s) \<and> total (stats (step e s)) = total (stats s)"
  by (cases e) (auto simp: handler_defs split: option.splits)

lemma bytes_no_chunk_run:
  "chain s = Settled \<Longrightarrow> list_all (\<lambda>e. \<not> is_chunk e) evs \<Longrightarrow>
   loaded (stats (run evs s)) = loaded (stats s) \<and> total (stats (run evs s)) = total (stats s)"
proof (induction evs arbitrary: s)
  case Nil
  show ?case by simp
next
  case (Cons e es)
  from Cons.prems have ne: "\<not> is_chunk e" and rest: "list_all (\<lambda>e. \<not> is_chunk e) es" by simp_all
  from bytes_no_chunk_step [OF Cons.prems(1) ne] Cons.IH [of "step e s"] rest show ?case by simp
qed

subsection \<open>Notifications\<close>

text \<open>
  C1. The notifications of one load, for a transport that honours the cancellation
  signal and an \<^verbatim>\<open>onSuccess\<close> that returns normally: at most one terminal notification
  (\<^verbatim>\<open>onSuccess\<close>, \<^verbatim>\<open>onError\<close>, \<^verbatim>\<open>onTimeout\<close>) is made, and exactly one once the chain has
  settled or the timer has fired, if the caller never aborted or destroyed the loader.
  Whatever the transport and the callbacks do, a load whose chain has settled or whose
  timer has fired has a terminal or an abort notification, unless it was destroyed or was
  aborted with no \<^verbatim>\<open>onAbort\<close> registered. \<^verbatim>\<open>abort()\<close> after \<^verbatim>\<open>load\<close> notifies \<^verbatim>\<open>onAbort\<close>
  when that callback is registered and nothing otherwise, and whatever happens afterwards
  (a rejection of the transport, a response with an HTTP error) \<^verbatim>\<open>onError\<close> is not
  invoked: the errors notified remain those notified before the abort.
\<close>

theorem C1_notifications:
  "(honours evs \<and> onSuccess_throws cbs = None \<longrightarrow>
      length (filter is_terminal (trace (run evs (load ctx cfg cbs now (FetchLoader_new hc sg))))) \<le> 1
      \<and> (list_all (\<lambda>x. \<not> by_caller x) evs
           \<and> (chain (run evs (load ctx cfg cbs now (FetchLoader_new hc sg))) = Settled
                \<or> requestTimeout (run evs (load ctx cfg cbs now (FetchLoader_new hc sg))) = None) \<longrightarrow>
          length (filter is_terminal
                   (trace (run evs (load ctx cfg cbs now (FetchLoader_new hc sg))))) = 1))
   \<and> (Destroy \<notin> set evs \<and> (Abort \<in> set evs \<longrightarrow> onAbort cbs)
        \<and> (chain (run evs (load ctx cfg cbs now (FetchLoader_new hc sg))) = Settled
             \<or> requestTimeout (run evs (load ctx cfg cbs now (FetchLoader_new hc sg))) = None) \<longrightarrow>
        list_ex (\<lambda>n. is_terminal n \<or> is_abort n)
          (trace (run evs (load ctx cfg cbs now (FetchLoader_new hc sg)))))
   \<and> (callbacks s = Some cbs' \<longrightarrow>
        trace (step Abort s) =
          trace s @ (if onAbort cbs'
                     then [OnAbort ((stats s) \<lparr> aborted := True \<rparr>) (context s) (response s)]
                     else [])
        \<and> filter is_error (trace (run evs' (step Abort s))) = filter is_error (trace s))"
proof -
  let ?L = "load ctx cfg cbs now (FetchLoader_new hc sg)"
  have gone: "chain (run evs ?L) = Settled \<or> requestTimeout (run evs ?L) = None \<Longrightarrow>
      requestTimeout (run evs ?L) = None"
    using settled_timer_run [of ?L evs] by (auto simp: load_def Let_def)
  have 1: "honours evs \<and> onSuccess_throws cbs = None \<longrightarrow>
      length (filter is_terminal (trace (run evs ?L))) \<le> 1"
    using honours_run [OF before_cancel_load] by blast
  have 2: "honours evs \<and> onSuccess_throws cbs = None \<longrightarrow>
      list_all (\<lambda>x. \<not> by_caller x) evs
           \<and> (chain (run evs ?L) = Settled \<or> requestTimeout (run evs ?L) = None) \<longrightarrow>
      length (filter is_terminal (trace (run evs ?L))) = 1"
  proof (intro impI, elim conjE)
    assume h: "honours evs" and q: "onSuccess_throws cbs = None"
      and n: "list_all (\<lambda>x. \<not> by_caller x) evs"
      and g: "chain (run evs ?L) = Settled \<or> requestTimeout (run evs ?L) = None"
    from exactly_one_run [OF before_cancel_load [OF q] h n gone [OF g]]
    show "length (filter is_terminal (trace (run evs ?L))) = 1" .
  qed
  have cb: "callbacks ?L = Some cbs" by (simp add: load_def Let_def)
  have 3: "Destroy \<notin> set evs \<and> (Abort \<in> set evs \<longrightarrow> onAbort cbs)
        \<and> (chain (run evs ?L) = Settled \<or> requestTimeout (run evs ?L) = None) \<longrightarrow>
        list_ex (\<lambda>n. is_terminal n \<or> is_abort n) (trace (run evs ?L))"
  proof (intro impI, elim conjE)
    assume d: "Destroy \<notin> set evs" and a: "Abort \<in> set evs \<longrightarrow> onAbort cbs"
      and g: "chain (run evs ?L) = Settled \<or> requestTimeout (run evs ?L) = None"
    from notified_run [OF notified_load cb d a] have "notified (run evs ?L)" .
    with gone [OF g] show "list_ex (\<lambda>n. is_terminal n \<or> is_abort n) (trace (run evs ?L))"
      by (simp add: notified_def)
  qed
  have ab: "aborted (stats (step Abort s))"
    by (simp add: handler_defs split: option.splits)
  have 4: "callbacks s = Some cbs' \<longrightarrow>
        trace (step Abort s) =
          trace s @ (if onAbort cbs'
                     then [OnAbort ((stats s) \<lparr> aborted := True \<rparr>) (context s) (response s)]
                     else [])"
    by (simp add: handler_defs)
  have 5: "callbacks s = Some cbs' \<longrightarrow>
        filter is_error (trace (run evs' (step Abort s))) = filter is_error (trace s)"
    using errors_run [OF ab, of evs'] 4 by auto
  from 1 2 3 4 5 show ?thesis by blast
qed

theorem C1_notifications_witness:
  "honours [RespArrives partial_content 1050, BodyArrives three_bytes 1100]
   \<and> onSuccess_throws full_callbacks = None
   \<and> list_all (\<lambda>x. \<not> by_caller x) [RespArrives partial_content 1050, BodyArrives three_bytes 1100]
   \<and> Destroy \<notin> set [RespArrives partial_content 1050, BodyArrives three_bytes 1100]
   \<and> Abort \<notin> set [RespArrives partial_content 1050, BodyArrives three_bytes 1100]
   \<and> chain (run [RespArrives partial_content 1050, BodyArrives three_bytes 1100] full_load) = Settled
   \<and> length (filter is_terminal
        (trace (run [RespArrives partial_content 1050, BodyArrives three_bytes 1100] full_load))) = 1
   \<and> list_ex (\<lambda>n. is_terminal n \<or> is_abort n)
        (trace (run [RespArrives partial_content 1050, BodyArrives three_bytes 1100] full_load))
   \<and> honours [TimerFires, Rejects abort_error]
   \<and> list_all (\<lambda>x. \<not> by_caller x) [TimerFires, Rejects abort_error]
   \<and> requestTimeout (run [TimerFires, Rejects abort_error] full_load) = None
   \<and> length (filter is_terminal (trace (run [TimerFires, Rejects abort_error] full_load))) = 1
   \<and> Destroy \<notin> set [Abort, Rejects abort_error]
   \<and> Abort \<in> set [Abort, Rejects abort_error] \<and> onAbort full_callbacks
   \<and> chain (run [Abort, Rejects abort_error] full_load) = Settled
   \<and> list_ex (\<lambda>n. is_terminal n \<or> is_abort n) (trace (run [Abort, Rejects abort_error] full_load))
   \<and> callbacks full_load = Some full_callbacks
   \<and> map is_abort (trace (step Abort full_load)) = [True]
   \<and> filter is_error (trace (run [Rejects abort_error] (step Abort full_load))) = []"
proof -
  let ?evs = "[RespArrives partial_content 1050, BodyArrives three_bytes 1100]"
  let ?tmo = "[TimerFires, Rejects abort_error]"
  let ?abo = "[Abort, Rejects abort_error]"
  have o: "onAbort full_callbacks" by (simp add: full_callbacks_def)
  have j1: "Destroy \<notin> set ?abo" by simp
  have j2: "Abort \<in> set ?abo \<longrightarrow> onAbort full_callbacks" using o by simp
  have j3: "chain (run ?abo full_load) = Settled"
    by (simp add: load_defs handler_defs full_callbacks_def)
  from C1_notifications [where evs = ?abo and ctx = segment_context and cfg = five_seconds
         and cbs = full_callbacks and now = 1000 and hc = default_config and sg = the_signal]
       j1 j2 j3
  have j4: "list_ex (\<lambda>n. is_terminal n \<or> is_abort n) (trace (run ?abo full_load))"
    unfolding full_load_def by blast
  have h1: "honours ?evs" and h2: "list_all (\<lambda>x. \<not> by_caller x) ?evs"
    and h5: "Destroy \<notin> set ?evs" and h6: "Abort \<notin> set ?evs"
    and k1: "honours ?tmo" and k2: "list_all (\<lambda>x. \<not> by_caller x) ?tmo"
    by simp_all
  have q: "onSuccess_throws full_callbacks = None" by (simp add: full_callbacks_def)
  have h3: "chain (run ?evs full_load) = Settled"
    by (simp add: load_defs handler_defs full_callbacks_def partial_content_def)
  have k3: "requestTimeout (run ?tmo full_load) = None"
    by (simp add: load_defs handler_defs)
  have h4: "callbacks full_load = Some full_callbacks" by (simp add: load_defs)
  have t0: "trace full_load = []" by (simp add: load_defs)
  note c = C1_notifications [where evs = ?evs and ctx = segment_context and cfg = five_seconds
             and cbs = full_callbacks and now = 1000 and hc = default_config and sg = the_signal
             and s = full_load and cbs' = full_callbacks and evs' = "[Rejects abort_error]"]
  note t = C1_notifications [where evs = ?tmo and ctx = segment_context and cfg = five_seconds
             and cbs = full_callbacks and now = 1000 and hc = default_config and sg = the_signal
             and s = full_load and cbs' = full_callbacks and evs' = "[]"]
  from c h1 h2 h3 q have a: "length (filter is_terminal (trace (run ?evs full_load))) = 1"
    unfolding full_load_def by blast
  from c h3 h5 h6 have n: "list_ex (\<lambda>n. is_terminal n \<or> is_abort n) (trace (run ?evs full_load))"
    unfolding full_load_def by blast
  from t k1 k2 k3 q have a': "length (filter is_terminal (trace (run ?tmo full_load))) = 1"
    unfolding full_load_def by blast
  from c h4 have "trace (step Abort full_load) =
          trace full_load @ (if onAbort full_callbacks
                     then [OnAbort ((stats full_load) \<lparr> aborted := True \<rparr>) (context full_load) (response full_load)]
                     else [])"
    by blast
  then have b: "map is_abort (trace (step Abort full_load)) = [True]"
    by (simp add: t0 o del: step.simps)
  from c h4 have "filter is_error (trace (run [Rejects abort_error] (step Abort full_load))) =
      filter is_error (trace full_load)"
    by blast
  then have d: "filter is_error (trace (run [Rejects abort_error] (step Abort full_load))) = []"
    by (simp add: t0 del: step.simps run.simps)
  have j0: "Abort \<in> set ?abo" by simp
  from h1 q h2 h5 h6 h3 a n k1 k2 k3 a' j1 j0 o j3 j4 h4 b d show ?thesis by blast
qed

text \<open>
  A load may end with no notification at all: with no \<^verbatim>\<open>onAbort\<close> registered, a load
  that is aborted and whose request is then rejected is settled, its timer cleared, and
  its trace is empty. And a load may get two terminal notifications: when \<^verbatim>\<open>onSuccess\<close>
  throws, the catch handler chained behind the success handler notifies \<^verbatim>\<open>onError\<close>.
\<close>

theorem C1_counterexample:
  "chain (run [Abort, Rejects abort_error] plain_load) = Settled
   \<and> requestTimeout (run [Abort, Rejects abort_error] plain_load) = None
   \<and> trace (run [Abort, Rejects abort_error] plain_load) = []
   \<and> map is_terminal
       (trace (run [RespArrives partial_content 1050, BodyArrives three_bytes 1100] throwing_load))
       = [True, True]"
  by (simp add: load_defs handler_defs plain_callbacks_def throwing_callbacks_def
        partial_content_def is_terminal_def)

text \<open>
  The two notifications of that load: the success, with the statistics of the success
  handler, and then the error, with the properties of what \<^verbatim>\<open>onSuccess\<close> threw.
\<close>

lemma onSuccess_throwing_notifies_onError:
  "trace (run [RespArrives partial_content 1050, BodyArrives three_bytes 1100] throwing_load) =
     [OnSuccess \<lparr> loaded_url = ''https://x/seg.ts'', data = ArrayBuffer [1, 2, 3] \<rparr>
        \<lparr> aborted = False, trequest = Some 1000, tfirst = Some 1050, tload = Some 1100,
          loaded = 3, total = Some 3 \<rparr>
        segment_context partial_content,
      OnError None ''x is not a function'' segment_context None]"
  by (simp add: load_defs handler_defs throwing_callbacks_def partial_content_def
        segment_context_def three_bytes_def TypeError_def Math_max_def)

text \<open>
  C6. A response whose \<^verbatim>\<open>ok\<close> is false (a non-success status such as 404), arriving at
  a load that is not aborted, makes exactly one notification: \<^verbatim>\<open>onError\<close> with the status
  as code, with the status text or, when that is empty, \<^verbatim>\<open>fetch, bad network response\<close>
  as text, and with the response as details. No \<^verbatim>\<open>onSuccess\<close> follows for that load,
  whatever happens next.
\<close>

theorem C6_http_error:
  "chain s = AwaitResponse clo \<Longrightarrow> \<not> aborted (stats s) \<Longrightarrow> \<not> ok r \<Longrightarrow>
     trace (step (RespArrives r now) s) =
       trace s @ [OnError (Some (status r))
                    (if statusText r = [] then ''fetch, bad network response'' else statusText r)
                    (c_context clo) (Some r)]
   \<and> (\<forall>evs. filter is_success (trace (run evs (step (RespArrives r now) s))) =
              filter is_success (trace s))"
proof -
  assume a: "chain s = AwaitResponse clo" "\<not> aborted (stats s)" "\<not> ok r"
  let ?s' = "step (RespArrives r now) s"
  have t: "trace ?s' = trace s @ [OnError (Some (status r))
                    (if statusText r = [] then ''fetch, bad network response'' else statusText r)
                    (c_context clo) (Some r)]"
    using a by (simp add: handler_defs FetchError_def)
  have c: "chain ?s' = Settled"
    using a by (simp add: handler_defs)
  have "filter is_success (trace (run evs ?s')) = filter is_success (trace s)" for evs
    using successes_run [OF c, of evs] t by simp
  with t show ?thesis by blast
qed

theorem C6_http_error_witness:
  "chain plain_load = AwaitResponse \<lparr> c_context = segment_context, c_callbacks = plain_callbacks \<rparr>
   \<and> \<not> aborted (stats plain_load) \<and> \<not> ok not_found
   \<and> trace (step (RespArrives not_found 1050) plain_load) =
       [OnError (Some 404) ''fetch, bad network response'' segment_context (Some not_found)]
   \<and> filter is_success
       (trace (run [BodyArrives three_bytes 1060] (step (RespArrives not_found 1050) plain_load))) = []"
proof -
  have h1: "chain plain_load =
      AwaitResponse \<lparr> c_context = segment_context, c_callbacks = plain_callbacks \<rparr>"
    by (simp add: load_defs)
  have h2: "\<not> aborted (stats plain_load)" by (simp add: load_defs)
  have h3: "\<not> ok not_found" by (simp add: not_found_def)
  have t0: "trace plain_load = []" by (simp add: load_defs)
  have r: "status not_found = 404" "statusText not_found = []" by (simp_all add: not_found_def)
  note c = C6_http_error [OF h1 h2 h3, of 1050]
  from c have a: "trace (step (RespArrives not_found 1050) plain_load) =
      [OnError (Some 404) ''fetch, bad network response'' segment_context (Some not_found)]"
    by (simp add: t0 r del: step.simps)
  from c have b: "filter is_success
       (trace (run [BodyArrives three_bytes 1060] (step (RespArrives not_found 1050) plain_load))) = []"
    by (simp add: t0 del: step.simps run.simps)
  from h1 h2 h3 a b show ?thesis by blast
qed

subsection \<open>The timer\<close>

text \<open>
  C2. The timeout path. When the timer fires, its callback runs \<^verbatim>\<open>abortInternal\<close>, so
  \<^verbatim>\<open>stats.aborted\<close> becomes true; no other field of the statistics changes, and the one
  notification made is \<^verbatim>\<open>onTimeout\<close> (not \<^verbatim>\<open>onAbort\<close>), with these statistics, the
  context of the load and the response known so far.
\<close>

theorem C2_timeout_path:
  "requestTimeout s = Some clo \<Longrightarrow>
     stats (step TimerFires s) = (stats s) \<lparr> aborted := True \<rparr>
   \<and> trace (step TimerFires s) =
       trace s @ [OnTimeout ((stats s) \<lparr> aborted := True \<rparr>) (c_context clo) (response s)]"
  by (simp add: onTimer_def abortInternal_def notify_def)

theorem C2_timeout_path_witness:
  "requestTimeout plain_load = Some \<lparr> c_context = segment_context, c_callbacks = plain_callbacks \<rparr>
   \<and> stats (step TimerFires plain_load) = (stats plain_load) \<lparr> aborted := True \<rparr>
   \<and> trace (step TimerFires plain_load) =
       [OnTimeout ((stats plain_load) \<lparr> aborted := True \<rparr>) segment_context None]"
  using C2_timeout_path [of plain_load "\<lparr> c_context = segment_context, c_callbacks = plain_callbacks \<rparr>"]
  by (simp add: load_defs)

text \<open>
  \<^verbatim>\<open>stats.aborted\<close> does not stay false on the timeout path: it is false after \<^verbatim>\<open>load\<close>
  and true once the timer has fired.
\<close>

theorem C2_counterexample:
  "\<not> aborted (stats plain_load) \<and> aborted (stats (step TimerFires plain_load))"
  by (simp add: load_defs onTimer_def abortInternal_def notify_def)

text \<open>
  C7. The release of the timer. The success handler and the catch handler clear it,
  whichever event runs them: the body arriving, a rejection, a response with an HTTP
  error. Firing spends it. Once it is gone it stays gone, and no further \<^verbatim>\<open>onTimeout\<close>
  is notified. \<^verbatim>\<open>abort()\<close> and \<^verbatim>\<open>destroy()\<close> leave the timer as it is.
\<close>

theorem C7_timer_release:
  "(chain s = AwaitBody clo \<longrightarrow> requestTimeout (step (BodyArrives b now) s) = None)
   \<and> (chain s = AwaitResponse clo \<or> chain s = AwaitBody clo \<longrightarrow>
        requestTimeout (step (Rejects e) s) = None)
   \<and> (chain s = AwaitResponse clo \<and> \<not> ok r \<longrightarrow>
        requestTimeout (step (RespArrives r now) s) = None)
   \<and> requestTimeout (step TimerFires s) = None
   \<and> (requestTimeout s = None \<longrightarrow>
        requestTimeout (run evs s) = None
        \<and> filter is_timeout (trace (run evs s)) = filter is_timeout (trace s))
   \<and> requestTimeout (step Abort s) = requestTimeout s
   \<and> requestTimeout (step Destroy s) = requestTimeout s"
proof -
  have a: "chain s = AwaitBody clo \<longrightarrow> requestTimeout (step (BodyArrives b now) s) = None"
    by (auto simp: handler_defs split: option.splits)
  have b: "chain s = AwaitResponse clo \<or> chain s = AwaitBody clo \<longrightarrow>
        requestTimeout (step (Rejects e) s) = None"
    by (auto simp: handler_defs)
  have c: "chain s = AwaitResponse clo \<and> \<not> ok r \<longrightarrow>
        requestTimeout (step (RespArrives r now) s) = None"
    by (auto simp: handler_defs)
  have d: "requestTimeout (step TimerFires s) = None"
    by (auto simp: handler_defs split: option.splits)
  have f: "requestTimeout (step Abort s) = requestTimeout s"
          "requestTimeout (step Destroy s) = requestTimeout s"
    by (auto simp: handler_defs split: option.splits)
  from a b c d f timer_run [of s evs] timeouts_run [of s evs] show ?thesis by blast
qed

theorem C7_timer_release_witness:
  "chain plain_load = AwaitResponse \<lparr> c_context = segment_context, c_callbacks = plain_callbacks \<rparr>
   \<and> \<not> ok not_found
   \<and> requestTimeout (step (Rejects abort_error) plain_load) = None
   \<and> requestTimeout (step (RespArrives not_found 1050) plain_load) = None
   \<and> requestTimeout (run [TimerFires] (step (RespArrives not_found 1050) plain_load)) = None"
proof -
  let ?clo = "\<lparr> c_context = segment_context, c_callbacks = plain_callbacks \<rparr>"
  have h1: "chain plain_load = AwaitResponse ?clo" by (simp add: load_defs)
  have h3: "\<not> ok not_found" by (simp add: not_found_def)
  note c = C7_timer_release [of plain_load ?clo three_bytes 1050 abort_error not_found "[]"]
  from c h1 h3 have a: "requestTimeout (step (Rejects abort_error) plain_load) = None"
    and b: "requestTimeout (step (RespArrives not_found 1050) plain_load) = None"
    by blast+
  from C7_timer_release [of "step (RespArrives not_found 1050) plain_load" ?clo three_bytes 1050
         abort_error not_found "[TimerFires]"] b
  have d: "requestTimeout (run [TimerFires] (step (RespArrives not_found 1050) plain_load)) = None"
    by blast
  from h1 h3 a b d show ?thesis by blast
qed

text \<open>
  After \<^verbatim>\<open>abort()\<close> the timer is still scheduled; when it then fires, \<^verbatim>\<open>onTimeout\<close> is
  notified after \<^verbatim>\<open>onAbort\<close>.
\<close>

theorem C7_counterexample:
  "requestTimeout (step Abort full_load) =
     Some \<lparr> c_context = segment_context, c_callbacks = full_callbacks \<rparr>
   \<and> map is_timeout (trace (run [Abort, TimerFires] full_load)) = [False, True]"
  by (simp add: load_defs handler_defs full_callbacks_def)

subsection \<open>abort and destroy\<close>




subsection \<open>Statistics\<close>

text \<open>
  C4. Every \<^verbatim>\<open>onSuccess\<close> notification of a load carries statistics whose \<open>loaded\<close> is
  the length of the payload it delivers and whose \<open>total\<close> is the same number. The
  success handler, run on the decoded body, notifies \<^verbatim>\<open>onSuccess\<close> with the payload in
  the representation asked for and sets both fields to its length (\<^verbatim>\<open>byteLength\<close> of the
  bytes, \<^verbatim>\<open>length\<close> of the text), whatever total the Content-Length header had given.
  After it the two fields keep these values for as long as the pump reads no further
  chunk, and for good when no pump is reading; a chunk read by the pump, which the success
  handler does not stop, adds its length to \<open>loaded\<close> and leaves \<open>total\<close>.
\<close>

theorem C4_success_bytes:
  "(\<forall>lr st c r. OnSuccess lr st c r \<in> set (trace (run evs (load ctx cfg cbs started (FetchLoader_new hc sg)))) \<longrightarrow>
        loaded st = payload_length (data lr) \<and> total st = Some (loaded st))
   \<and> (chain s = AwaitBody clo \<and> response s = Some r' \<longrightarrow>
        (\<exists>lr. trace (step (BodyArrives b now) s) =
                 trace s @ OnSuccess lr (stats (step (BodyArrives b now) s)) (c_context clo) r'
                   # (case onSuccess_throws (c_callbacks clo) of
                        None \<Rightarrow> []
                      | Some e \<Rightarrow> if aborted (stats s) then []
                                  else [OnError (code e) (message e) (c_context clo) (details e)])
              \<and> data lr = (if responseType (c_context clo) = ''arraybuffer''
                           then ArrayBuffer (body_arrayBuffer b) else Text (body_text b))
              \<and> loaded (stats (step (BodyArrives b now) s)) = payload_length (data lr)
              \<and> total (stats (step (BodyArrives b now) s)) = Some (payload_length (data lr))))
   \<and> (chain s = Settled \<and> (pump s = None \<or> list_all (\<lambda>e. \<not> is_chunk e) evs') \<longrightarrow>
        loaded (stats (run evs' s)) = loaded (stats s)
        \<and> total (stats (run evs' s)) = total (stats s))
   \<and> (pump s = Some (clo', r'') \<longrightarrow>
        loaded (stats (step (Chunk v) s)) = loaded (stats s) + int (length v)
        \<and> total (stats (step (Chunk v) s)) = total (stats s))"
proof -
  have "list_all reports_all_bytes (trace (load ctx cfg cbs started (FetchLoader_new hc sg)))"
    by (simp add: load_def FetchLoader_new_def Let_def)
  then have "list_all reports_all_bytes (trace (run evs (load ctx cfg cbs started (FetchLoader_new hc sg))))"
    by (rule reports_run)
  then have 1: "\<forall>lr st c r. OnSuccess lr st c r \<in> set (trace (run evs (load ctx cfg cbs started (FetchLoader_new hc sg)))) \<longrightarrow>
        loaded st = payload_length (data lr) \<and> total st = Some (loaded st)"
    unfolding list_all_iff by fastforce
  have 2: "chain s = AwaitBody clo \<and> response s = Some r' \<longrightarrow>
        (\<exists>lr. trace (step (BodyArrives b now) s) =
                 trace s @ OnSuccess lr (stats (step (BodyArrives b now) s)) (c_context clo) r'
                   # (case onSuccess_throws (c_callbacks clo) of
                        None \<Rightarrow> []
                      | Some e \<Rightarrow> if aborted (stats s) then []
                                  else [OnError (code e) (message e) (c_context clo) (details e)])
              \<and> data lr = (if responseType (c_context clo) = ''arraybuffer''
                           then ArrayBuffer (body_arrayBuffer b) else Text (body_text b))
              \<and> loaded (stats (step (BodyArrives b now) s)) = payload_length (data lr)
              \<and> total (stats (step (BodyArrives b now) s)) = Some (payload_length (data lr)))"
    by (auto simp: handler_defs payload_length_def split: option.splits)
  have 3: "chain s = Settled \<and> (pump s = None \<or> list_all (\<lambda>e. \<not> is_chunk e) evs') \<longrightarrow>
        loaded (stats (run evs' s)) = loaded (stats s)
        \<and> total (stats (run evs' s)) = total (stats s)"
    using bytes_no_pump_run [of s evs'] bytes_no_chunk_run [of s evs'] by blast
  have 4: "pump s = Some (clo', r'') \<longrightarrow>
        loaded (stats (step (Chunk v) s)) = loaded (stats s) + int (length v)
        \<and> total (stats (step (Chunk v) s)) = total (stats s)"
    by (simp add: handler_defs)
  from 1 2 3 4 show ?thesis by blast
qed

theorem C4_success_bytes_witness:
  "chain (step (RespArrives partial_content 1050) plain_load) =
     AwaitBody \<lparr> c_context = segment_context, c_callbacks = plain_callbacks \<rparr>
   \<and> response (step (RespArrives partial_content 1050) plain_load) = Some partial_content
   \<and> total (stats (step (RespArrives partial_content 1050) plain_load)) = Some 100
   \<and> OnSuccess \<lparr> loaded_url = ''https://x/seg.ts'', data = ArrayBuffer [1, 2, 3] \<rparr>
        (stats (run [RespArrives partial_content 1050, BodyArrives three_bytes 1100] plain_load))
        segment_context partial_content
      \<in> set (trace (run [RespArrives partial_content 1050, BodyArrives three_bytes 1100] plain_load))
   \<and> loaded (stats (run [RespArrives partial_content 1050, BodyArrives three_bytes 1100] plain_load)) = 3
   \<and> total (stats (run [RespArrives partial_content 1050, BodyArrives three_bytes 1100] plain_load)) = Some 3
   \<and> chain (run [RespArrives partial_content 1050, BodyArrives three_bytes 1100] plain_load) = Settled
   \<and> pump (run [RespArrives partial_content 1050, BodyArrives three_bytes 1100] plain_load) = None
   \<and> loaded (stats (run [Chunk [4, 5, 6], Abort]
        (run [RespArrives partial_content 1050, BodyArrives three_bytes 1100] plain_load))) = 3
   \<and> total (stats (run [Chunk [4, 5, 6], Abort]
        (run [RespArrives partial_content 1050, BodyArrives three_bytes 1100] plain_load))) = Some 3
   \<and> pump (step (RespArrives partial_content 1050) full_load) =
       Some (\<lparr> c_context = segment_context, c_callbacks = full_callbacks \<rparr>, partial_content)
   \<and> loaded (stats (step (Chunk [4, 5, 6]) (step (RespArrives partial_content 1050) full_load))) =
       loaded (stats (step (RespArrives partial_content 1050) full_load)) + 3"
proof -
  let ?clo = "\<lparr> c_context = segment_context, c_callbacks = plain_callbacks \<rparr>"
  let ?fclo = "\<lparr> c_context = segment_context, c_callbacks = full_callbacks \<rparr>"
  let ?s1 = "step (RespArrives partial_content 1050) plain_load"
  let ?f1 = "step (RespArrives partial_content 1050) full_load"
  let ?evs = "[RespArrives partial_content 1050, BodyArrives three_bytes 1100]"
  let ?lr = "\<lparr> loaded_url = ''https://x/seg.ts'', data = ArrayBuffer [1, 2, 3] \<rparr>"
  have r: "run ?evs plain_load = step (BodyArrives three_bytes 1100) ?s1" by simp
  have h1: "chain ?s1 = AwaitBody ?clo"
    by (simp add: load_defs handler_defs plain_callbacks_def partial_content_def)
  have h2: "response ?s1 = Some partial_content"
    by (simp add: load_defs handler_defs plain_callbacks_def partial_content_def)
  have h3: "total (stats ?s1) = Some 100"
    by (simp add: load_defs handler_defs plain_callbacks_def partial_content_def parseInt_100)
  have ty': "responseType segment_context = ''arraybuffer''" by (simp add: segment_context_def)
  then have ty: "responseType (c_context ?clo) = ''arraybuffer''" by simp
  have bb: "body_arrayBuffer three_bytes = [1, 2, 3]" by (simp add: three_bytes_def)
  have u: "response_url partial_content = ''https://x/seg.ts''" by (simp add: partial_content_def)
  have q: "onSuccess_throws plain_callbacks = None" by (simp add: plain_callbacks_def)
  have t1: "trace ?s1 = []"
    by (simp add: load_defs handler_defs plain_callbacks_def partial_content_def)
  have p1: "pump ?s1 = None"
    by (simp add: load_defs handler_defs plain_callbacks_def partial_content_def)
  note c = C4_success_bytes [where evs = ?evs and ctx = segment_context and cfg = five_seconds
             and cbs = plain_callbacks and started = 1000 and hc = default_config
             and sg = the_signal and s = ?s1
             and clo = ?clo and r' = partial_content and b = three_bytes and now = 1100]
  from c h1 h2 obtain lr :: LoaderResponse where
      d: "data lr = (if responseType (c_context ?clo) = ''arraybuffer''
                     then ArrayBuffer (body_arrayBuffer three_bytes) else Text (body_text three_bytes))"
    and l: "loaded (stats (step (BodyArrives three_bytes 1100) ?s1)) = payload_length (data lr)"
    by blast
  from d ty bb have "data lr = ArrayBuffer [1, 2, 3]" by simp
  with l have e1: "loaded (stats (run ?evs plain_load)) = 3"
    unfolding r by (simp add: payload_length_def)
  have "trace (step (BodyArrives three_bytes 1100) ?s1) =
          [OnSuccess ?lr (stats (step (BodyArrives three_bytes 1100) ?s1)) segment_context partial_content]"
    using h1 h2 t1 q
    by (simp add: onData_def settle_def notify_def Let_def ty' bb u del: step.simps(4))
  then have m: "OnSuccess ?lr (stats (run ?evs plain_load)) segment_context partial_content
      \<in> set (trace (run ?evs plain_load))"
    unfolding r by simp
  from c m have "total (stats (run ?evs plain_load)) = Some (loaded (stats (run ?evs plain_load)))"
    unfolding plain_load_def by blast
  with e1 have e2: "total (stats (run ?evs plain_load)) = Some 3" by simp
  have g1: "chain (run ?evs plain_load) = Settled"
    unfolding r using h1 h2 q by (simp add: onData_def settle_def notify_def Let_def del: step.simps(4))
  have g2: "pump (run ?evs plain_load) = None"
    unfolding r using h1 h2 q p1
    by (simp add: onData_def settle_def notify_def Let_def del: step.simps(4))
  from C4_success_bytes [where s = "run ?evs plain_load" and evs' = "[Chunk [4, 5, 6], Abort]"] g1 g2
  have "loaded (stats (run [Chunk [4, 5, 6], Abort] (run ?evs plain_load))) = loaded (stats (run ?evs plain_load))
      \<and> total (stats (run [Chunk [4, 5, 6], Abort] (run ?evs plain_load))) = total (stats (run ?evs plain_load))"
    by blast
  with e1 e2 have e3: "loaded (stats (run [Chunk [4, 5, 6], Abort] (run ?evs plain_load))) = 3"
    and e4: "total (stats (run [Chunk [4, 5, 6], Abort] (run ?evs plain_load))) = Some 3"
    by simp_all
  have p2: "pump ?f1 = Some (?fclo, partial_content)"
    by (simp add: load_defs handler_defs full_callbacks_def partial_content_def)
  from C4_success_bytes [where s = ?f1 and clo' = ?fclo and r'' = partial_content
         and v = "[4, 5, 6]"] p2
  have e5: "loaded (stats (step (Chunk [4, 5, 6]) ?f1)) = loaded (stats ?f1) + 3"
    by simp
  from h1 h2 h3 m e1 e2 g1 g2 e3 e4 p2 e5 show ?thesis by blast
qed

text \<open>
  The two fields do not stay equal after every successful load: with \<^verbatim>\<open>onProgress\<close>
  registered, a chunk that the pump reads after the success handler has run leaves a
  settled, successful load of a payload of 3 bytes with 6 bytes loaded of a total of 3.
\<close>

theorem C4_counterexample:
  "chain (run [RespArrives partial_content 1050, BodyArrives three_bytes 1100, Chunk [4, 5, 6]]
            full_load) = Settled
   \<and> map is_success
       (trace (run [RespArrives partial_content 1050, BodyArrives three_bytes 1100, Chunk [4, 5, 6]]
                 full_load)) = [True, False]
   \<and> loaded (stats (run [RespArrives partial_content 1050, BodyArrives three_bytes 1100,
                          Chunk [4, 5, 6]] full_load)) = 6
   \<and> total (stats (run [RespArrives partial_content 1050, BodyArrives three_bytes 1100,
                         Chunk [4, 5, 6]] full_load)) = Some 3"
  by (simp add: load_defs handler_defs full_callbacks_def partial_content_def segment_context_def
        three_bytes_def)

text \<open>
  C5. In every state a load reaches the timestamps are monotone: a first-byte time is at
  least the request time and a completion time is at least the first-byte time. The
  first-byte time is assigned the maximum of the clock and the request time, and the
  completion time the maximum of the clock and the first-byte time, so a clock that runs
  backwards cannot put them out of order.
\<close>

theorem C5_monotone_timestamps:
  "monotone_timestamps (stats (run evs (load ctx cfg cbs started (FetchLoader_new hc sg))))
   \<and> (chain s = AwaitResponse clo \<and> ok r \<and> trequest (stats s) = Some q \<longrightarrow>
        tfirst (stats (step (RespArrives r now) s)) = Some (max now q))
   \<and> (chain s = AwaitBody clo \<and> tfirst (stats s) = Some f \<longrightarrow>
        tload (stats (step (BodyArrives b now) s)) = Some (max now f))"
proof -
  have 1: "monotone_timestamps (stats (run evs (load ctx cfg cbs started (FetchLoader_new hc sg))))"
    using timestamps_run [OF timestamps_load] by (simp add: timestamps_inv_def)
  have 2: "chain s = AwaitResponse clo \<and> ok r \<and> trequest (stats s) = Some q \<longrightarrow>
        tfirst (stats (step (RespArrives r now) s)) = Some (max now q)"
    by (auto simp: handler_defs Math_max_def split: sum.splits)
  have 3: "chain s = AwaitBody clo \<and> tfirst (stats s) = Some f \<longrightarrow>
        tload (stats (step (BodyArrives b now) s)) = Some (max now f)"
    by (auto simp: handler_defs Math_max_def split: option.splits)
  from 1 2 3 show ?thesis by blast
qed

theorem C5_monotone_timestamps_witness:
  "chain plain_load = AwaitResponse \<lparr> c_context = segment_context, c_callbacks = plain_callbacks \<rparr>
   \<and> ok partial_content
   \<and> trequest (stats plain_load) = Some 1000
   \<and> tfirst (stats (step (RespArrives partial_content 900) plain_load)) = Some 1000
   \<and> chain (step (RespArrives partial_content 900) plain_load) =
       AwaitBody \<lparr> c_context = segment_context, c_callbacks = plain_callbacks \<rparr>
   \<and> tload (stats (step (BodyArrives three_bytes 800) (step (RespArrives partial_content 900) plain_load)))
       = Some 1000
   \<and> monotone_timestamps
       (stats (run [RespArrives partial_content 900, BodyArrives three_bytes 800] plain_load))"
proof -
  let ?clo = "\<lparr> c_context = segment_context, c_callbacks = plain_callbacks \<rparr>"
  let ?s1 = "step (RespArrives partial_content 900) plain_load"
  have h1: "chain plain_load = AwaitResponse ?clo" by (simp add: load_defs)
  have h2: "ok partial_content" by (simp add: partial_content_def)
  have h3: "trequest (stats plain_load) = Some 1000" by (simp add: load_defs)
  have h4: "chain ?s1 = AwaitBody ?clo"
    by (simp add: load_defs handler_defs plain_callbacks_def partial_content_def)
  from C5_monotone_timestamps [where s = plain_load and clo = ?clo and r = partial_content
         and q = 1000 and now = 900] h1 h2 h3
  have "tfirst (stats ?s1) = Some (max 900 1000)" by blast
  then have a: "tfirst (stats ?s1) = Some 1000" by simp
  from C5_monotone_timestamps [where evs = "[RespArrives partial_content 900, BodyArrives three_bytes 800]"
         and ctx = segment_context and cfg = five_seconds and cbs = plain_callbacks
         and started = 1000 and hc = default_config and sg = the_signal
         and s = ?s1 and clo = ?clo and f = 1000 and b = three_bytes and now = 800] h4 a
  have "tload (stats (step (BodyArrives three_bytes 800) ?s1)) = Some (max 800 1000)"
    and m: "monotone_timestamps
       (stats (run [RespArrives partial_content 900, BodyArrives three_bytes 800] plain_load))"
    unfolding plain_load_def by blast+
  then have b: "tload (stats (step (BodyArrives three_bytes 800) ?s1)) = Some 1000" by simp
  from h1 h2 h3 a h4 b m show ?thesis by blast
qed

subsection \<open>Response headers\<close>

text \<open>
  C9. \<^verbatim>\<open>getResponseHeader\<close> always returns and never throws. With no response received
  it returns \<^verbatim>\<open>null\<close>, as it does right after \<^verbatim>\<open>load\<close>. With a response it returns what
  the response's \<^verbatim>\<open>headers.get\<close> returns for the name, the value or \<^verbatim>\<open>null\<close> for an
  absent header, and \<^verbatim>\<open>null\<close> when that call throws. The response it reads is the one
  that arrived last.
\<close>

theorem C9_getResponseHeader:
  "(\<exists>v. getResponseHeader s name = Inr v)
   \<and> (response s = None \<longrightarrow> getResponseHeader s name = Inr None)
   \<and> (response s = Some r \<longrightarrow>
        getResponseHeader s name = (case headers_get r name of Inr v \<Rightarrow> Inr v | Inl m \<Rightarrow> Inr None))
   \<and> (chain s = AwaitResponse clo \<longrightarrow> response (step (RespArrives r' now) s) = Some r')
   \<and> getResponseHeader (load ctx cfg cbs t (FetchLoader_new hc sg)) name = Inr None"
  by (auto simp: getResponseHeader_def handler_defs load_def FetchLoader_new_def
           split: option.splits sum.splits)

theorem C9_getResponseHeader_witness:
  "chain plain_load = AwaitResponse \<lparr> c_context = segment_context, c_callbacks = plain_callbacks \<rparr>
   \<and> response plain_load = None
   \<and> getResponseHeader plain_load ''Content-Length'' = Inr None
   \<and> response (step (RespArrives partial_content 1050) plain_load) = Some partial_content
   \<and> getResponseHeader (step (RespArrives partial_content 1050) plain_load) ''Content-Length'' =
       Inr (Some ''100'')
   \<and> getResponseHeader (step (RespArrives partial_content 1050) plain_load) ''ETag'' = Inr None"
proof -
  let ?clo = "\<lparr> c_context = segment_context, c_callbacks = plain_callbacks \<rparr>"
  let ?s = "step (RespArrives partial_content 1050) plain_load"
  have h1: "chain plain_load = AwaitResponse ?clo" by (simp add: load_defs)
  have h2: "response plain_load = None" by (simp add: load_defs)
  have g: "headers_get partial_content ''Content-Length'' = Inr (Some ''100'')"
          "headers_get partial_content ''ETag'' = Inr None"
    by (simp_all add: partial_content_def)
  from C9_getResponseHeader [of plain_load "''Content-Length''" partial_content ?clo partial_content 1050]
  have a: "getResponseHeader plain_load ''Content-Length'' = Inr None" and b: "response ?s = Some partial_content"
    using h1 h2 by blast+
  from C9_getResponseHeader [of ?s "''Content-Length''" partial_content] b g
  have c: "getResponseHeader ?s ''Content-Length'' = Inr (Some ''100'')"
    by (simp del: step.simps)
  from C9_getResponseHeader [of ?s "''ETag''" partial_content] b g
  have d: "getResponseHeader ?s ''ETag'' = Inr None"
    by (simp del: step.simps)
  from h1 h2 a b c d show ?thesis by blast
qed

end
